theory Spec2Isabelle
  imports Complex_Main
begin

section \<open>JavaScript values\<close>

text \<open>
  The dashboard (\<^verbatim>\<open>src/App.js\<close>) works on values decoded from JSON response bodies.
  A value is \<^verbatim>\<open>undefined\<close> (an absent property), \<^verbatim>\<open>null\<close>, a boolean, a number, a
  string, an array or a plain object. A number is a finite IEEE-754 double, modelled by
  the real number it denotes (JSON has neither NaN nor infinities, and \<^verbatim>\<open>-0\<close> and \<^verbatim>\<open>0\<close>
  behave alike in everything modelled here). An object is the list of its own
  properties.
\<close>

datatype jsval =
    JUndefined
  | JNull
  | JBool bool
  | JNum real
  | JStr string
  | JArr "jsval list"
  | JObj "(string \<times> jsval) list"

text \<open>What a rejected promise or a \<^verbatim>\<open>throw\<close> carries into a \<^verbatim>\<open>catch\<close> block.\<close>

datatype error =
    TypeError
  | Rejected string

text \<open>
  Truthiness, as \<^verbatim>\<open>if (v)\<close>, \<^verbatim>\<open>!v\<close> and \<^verbatim>\<open>v || w\<close> test it: \<^verbatim>\<open>undefined\<close>, \<^verbatim>\<open>null\<close>,
  \<^verbatim>\<open>false\<close>, \<^verbatim>\<open>0\<close> and the empty string are falsy, everything else is truthy.
\<close>

fun truthy :: "jsval \<Rightarrow> bool" where
  "truthy JUndefined = False"
| "truthy JNull = False"
| "truthy (JBool b) = b"
| "truthy (JNum n) = (n \<noteq> 0)"
| "truthy (JStr s) = (s \<noteq> [])"
| "truthy (JArr xs) = True"
| "truthy (JObj kvs) = True"

text \<open>\<^verbatim>\<open>a || b\<close>: the left operand when it is truthy, the right operand otherwise.\<close>

definition js_or :: "jsval \<Rightarrow> jsval \<Rightarrow> jsval" where
  "js_or a b = (if truthy a then a else b)"

text \<open>
  Property access \<^verbatim>\<open>v.k\<close>, for the property names the dashboard reads (\<^verbatim>\<open>data\<close>,
  \<^verbatim>\<open>history\<close>, \<^verbatim>\<open>current\<close>, \<^verbatim>\<open>devices\<close>; none of them is a built-in property of strings
  or arrays): reading a property of \<^verbatim>\<open>undefined\<close> or \<^verbatim>\<open>null\<close> throws a TypeError, an
  object yields its property or \<^verbatim>\<open>undefined\<close>, any other value yields \<^verbatim>\<open>undefined\<close>.
\<close>

fun get :: "jsval \<Rightarrow> string \<Rightarrow> error + jsval" where
  "get JUndefined k = Inl TypeError"
| "get JNull k = Inl TypeError"
| "get (JObj kvs) k = Inr (case map_of kvs k of None \<Rightarrow> JUndefined | Some v \<Rightarrow> v)"
| "get v k = Inr JUndefined"

text \<open>
  Array spread \<^verbatim>\<open>[...v]\<close>: an array yields its elements, a string its characters
  (one-character strings), and any other value is not iterable, which throws a
  TypeError.
\<close>

fun spread :: "jsval \<Rightarrow> error + jsval list" where
  "spread (JArr xs) = Inr xs"
| "spread (JStr s) = Inr (map (\<lambda>c. JStr [c]) s)"
| "spread v = Inl TypeError"

text \<open>Sequencing of steps that may throw: the first error ends the block.\<close>

definition bind :: "error + 'a \<Rightarrow> ('a \<Rightarrow> error + 'b) \<Rightarrow> error + 'b" where
  "bind m f = (case m of Inl e \<Rightarrow> Inl e | Inr x \<Rightarrow> f x)"


section \<open>Utility functions\<close>

text \<open>
  \<^verbatim>\<open>getUserRole\<close> (lines 16-21). The role object of a member carries three capability
  flags; each is tested for truthiness, in this order.
\<close>

record role =
  teamAdmin :: jsval
  groupManager :: jsval
  billingAdmin :: jsval

definition getUserRole :: "role \<Rightarrow> string" where
  "getUserRole r =
     (if truthy (teamAdmin r) then ''Admin''
      else if truthy (groupManager r) then ''Group Manager''
      else if truthy (billingAdmin r) then ''Billing Admin''
      else ''User'')"

text \<open>
  \<^verbatim>\<open>getScoreColor\<close> (lines 23-27). The score is a double, and so are the literals
  \<^verbatim>\<open>0.8\<close> and \<^verbatim>\<open>0.6\<close> it is compared with: a literal denotes the double nearest to its
  decimal value, and \<^verbatim>\<open>>=\<close> on finite doubles is the order of the numbers they denote.
\<close>

definition double_0_8 :: real where
  "double_0_8 = 3602879701896397 / 4503599627370496"

definition double_0_6 :: real where
  "double_0_6 = 5404319552844595 / 9007199254740992"

definition double_0_59999 :: real where
  "double_0_59999 = 337764342553253 / 562949953421312"

definition getScoreColor :: "real \<Rightarrow> string" where
  "getScoreColor score =
     (if score \<ge> double_0_8 then ''green''
      else if score \<ge> double_0_6 then ''orange''
      else ''red'')"


section \<open>API client\<close>

text \<open>
  Lines 6-13. \<^verbatim>\<open>AUTH_TOKEN\<close> is read from the environment once, when the module is
  loaded: a string, or \<^verbatim>\<open>undefined\<close> when the variable is not set. The template literal
  \<^verbatim>\<open>`Bearer ${AUTH_TOKEN}`\<close> converts it to a string, and \<^verbatim>\<open>undefined\<close> converts to
  the text ``undefined''. \<^verbatim>\<open>axios.create\<close> stores the base URL and the header; it
  performs no check and issues no request.
\<close>

definition API_BASE_URL :: string where
  "API_BASE_URL = ''/dashlane-api/public/teams''"

definition template_Bearer :: "string option \<Rightarrow> string" where
  "template_Bearer AUTH_TOKEN =
     ''Bearer '' @ (case AUTH_TOKEN of None \<Rightarrow> ''undefined'' | Some t \<Rightarrow> t)"

record client =
  baseURL :: string
  headers :: "(string \<times> string) list"

definition api :: "string option \<Rightarrow> client" where
  "api AUTH_TOKEN =
     \<lparr>baseURL = API_BASE_URL, headers = [(''Authorization'', template_Bearer AUTH_TOKEN)]\<rparr>"

text \<open>
  \<^verbatim>\<open>api.post(path, payload)\<close> issues one POST request: the path appended to the base
  URL, the client's configured headers and the payload (\<^verbatim>\<open>undefined\<close> when none is
  given). Its outcome arrives later: the promise is fulfilled with a response object
  or rejected with an error.
\<close>

record request =
  url :: string
  request_headers :: "(string \<times> string) list"
  payload :: jsval

definition post :: "client \<Rightarrow> string \<Rightarrow> jsval \<Rightarrow> request" where
  "post c path p = \<lparr>url = baseURL c @ path, request_headers = headers c, payload = p\<rparr>"

text \<open>
  A settled promise: the moment it settled and its outcome, \<open>Inl\<close> the rejection reason
  and \<open>Inr\<close> the value it was fulfilled with.
\<close>

type_synonym 'a settled = "nat \<times> (error + 'a)"

fun rejections :: "'a settled list \<Rightarrow> (nat \<times> error) list" where
  "rejections [] = []"
| "rejections ((t, Inl e) # ps) = (t, e) # rejections ps"
| "rejections ((t, Inr v) # ps) = rejections ps"

fun fulfilled :: "'a settled list \<Rightarrow> 'a list" where
  "fulfilled [] = []"
| "fulfilled ((t, Inl e) # ps) = fulfilled ps"
| "fulfilled ((t, Inr v) # ps) = v # fulfilled ps"

fun earliest :: "nat \<times> error \<Rightarrow> (nat \<times> error) list \<Rightarrow> nat \<times> error" where
  "earliest r [] = r"
| "earliest r (q # qs) = earliest (if fst q < fst r then q else r) qs"

text \<open>
  \<^verbatim>\<open>Promise.all\<close>: rejected with the reason of the promise that is rejected first, and
  fulfilled with the array of all values, in the order of the promises, when none is
  rejected.
\<close>

definition Promise_all :: "'a settled list \<Rightarrow> error + 'a list" where
  "Promise_all ps =
     (case rejections ps of
        [] \<Rightarrow> Inr (fulfilled ps)
      | r # rs \<Rightarrow> Inl (snd (earliest r rs)))"


section \<open>Component state\<close>

text \<open>
  The state hooks of \<^verbatim>\<open>App\<close> (\<^verbatim>\<open>dashlaneInfo\<close>, \<^verbatim>\<open>hasError\<close>) and of \<^verbatim>\<open>Body\<close>
  (\<^verbatim>\<open>userDevices\<close>, \<^verbatim>\<open>activeUser\<close>), together with what the effects do to the outside:
  the requests issued so far (\<open>sent\<close>, a request being identified by its position),
  the device requests still in flight (\<open>pending\<close>) and the lines written with
  \<^verbatim>\<open>console.error\<close>.
\<close>

record dashlane_info =
  team :: jsval
  healthscore :: "jsval list"
  users :: jsval

record state =
  dashlaneInfo :: "dashlane_info option"
  hasError :: bool
  userDevices :: jsval
  activeUser :: jsval
  sent :: "request list"
  pending :: "nat list"
  console :: "(string \<times> error) list"

text \<open>The \<^verbatim>\<open>useState\<close> initial values, before any effect has run.\<close>

definition init :: state where
  "init = \<lparr>dashlaneInfo = None, hasError = False, userDevices = JNull, activeUser = JNull,
            sent = [], pending = [], console = []\<rparr>"


section \<open>Initial load\<close>

text \<open>\<^verbatim>\<open>r.data.data\<close>: the payload inside the envelope of a response body.\<close>

definition payload_of :: "jsval \<Rightarrow> error + jsval" where
  "payload_of r = bind (get r ''data'') (\<lambda>b. get b ''data'')"

text \<open>
  Array destructuring \<^verbatim>\<open>const [team, healthscore, users] = ...\<close>: a position beyond
  the end of the array yields \<^verbatim>\<open>undefined\<close>.
\<close>

definition element :: "jsval list \<Rightarrow> nat \<Rightarrow> jsval" where
  "element xs i = (if i < length xs then xs ! i else JUndefined)"

text \<open>
  Lines 49-53, the object passed to \<^verbatim>\<open>setDashlaneInfo\<close>; its properties are evaluated
  in the order written, and any of the property reads, or the spread, may throw.
\<close>

definition assemble :: "jsval \<Rightarrow> jsval \<Rightarrow> jsval \<Rightarrow> error + dashlane_info" where
  "assemble team_r healthscore_r users_r =
     bind (payload_of team_r) (\<lambda>t.
     bind (payload_of healthscore_r) (\<lambda>p.
     bind (get p ''history'') (\<lambda>h.
     bind (spread h) (\<lambda>hs.
     bind (payload_of healthscore_r) (\<lambda>q.
     bind (get q ''current'') (\<lambda>c.
     bind (payload_of users_r) (\<lambda>u.
     Inr \<lparr>team = t, healthscore = hs @ [c], users = u\<rparr>)))))))"

text \<open>
  \<^verbatim>\<open>fetchDashlaneInfo\<close> (lines 35-58) up to its \<^verbatim>\<open>await\<close>: the error flag is reset and
  the three requests are issued.
\<close>

definition fetchDashlaneInfo_issue :: "client \<Rightarrow> state \<Rightarrow> state" where
  "fetchDashlaneInfo_issue c s =
     s\<lparr>hasError := False,
       sent := sent s @
         [post c ''/Status'' JUndefined,
          post c ''/PasswordHealth'' JUndefined,
          post c ''/Members''
            (JObj [(''page'', JNum 0), (''order'', JStr ''ASC''),
                   (''orderBy'', JStr ''email''), (''limit'', JNum 100)])]\<rparr>"

text \<open>
  \<^verbatim>\<open>fetchDashlaneInfo\<close> from its \<^verbatim>\<open>await\<close> on, given how the three requests settled:
  the \<^verbatim>\<open>try\<close> block stores the assembled object, and the \<^verbatim>\<open>catch\<close> block receives
  whatever was rejected or thrown, sets the error flag and logs.
\<close>

definition fetchDashlaneInfo_settled ::
  "jsval settled \<Rightarrow> jsval settled \<Rightarrow> jsval settled \<Rightarrow> state \<Rightarrow> state" where
  "fetchDashlaneInfo_settled status_p health_p members_p s =
     (case bind (Promise_all [status_p, health_p, members_p])
             (\<lambda>rs. assemble (element rs 0) (element rs 1) (element rs 2)) of
        Inr info \<Rightarrow> s\<lparr>dashlaneInfo := Some info\<rparr>
      | Inl e \<Rightarrow>
          s\<lparr>hasError := True,
            console := console s @ [(''Failed to fetch Dashlane info:'', e)]\<rparr>)"

definition fetchDashlaneInfo ::
  "client \<Rightarrow> jsval settled \<Rightarrow> jsval settled \<Rightarrow> jsval settled \<Rightarrow> state \<Rightarrow> state" where
  "fetchDashlaneInfo c status_p health_p members_p s =
     fetchDashlaneInfo_settled status_p health_p members_p (fetchDashlaneInfo_issue c s)"


section \<open>Device lookup\<close>

text \<open>
  \<^verbatim>\<open>fetchUserDevice\<close> (lines 77-88) up to its \<^verbatim>\<open>await\<close>: nothing happens when
  \<^verbatim>\<open>activeUser\<close> is falsy, otherwise one request is issued and is in flight.
\<close>

definition fetchUserDevice_issue :: "client \<Rightarrow> state \<Rightarrow> state" where
  "fetchUserDevice_issue c s =
     (if \<not> truthy (activeUser s) then s
      else s\<lparr>sent := sent s @
                 [post c ''/MembersDeviceInformation''
                    (JObj [(''emails'', JArr [activeUser s])])],
             pending := pending s @ [length (sent s)]\<rparr>)"

text \<open>\<^verbatim>\<open>response.data.data.devices\<close>.\<close>

definition devices_of :: "jsval \<Rightarrow> error + jsval" where
  "devices_of response = bind (payload_of response) (\<lambda>d. get d ''devices'')"

text \<open>
  \<^verbatim>\<open>fetchUserDevice\<close> from its \<^verbatim>\<open>await\<close> on: the \<^verbatim>\<open>try\<close> block stores the devices of
  the response, and the \<^verbatim>\<open>catch\<close> block only logs.
\<close>

definition fetchUserDevice_settled :: "error + jsval \<Rightarrow> state \<Rightarrow> state" where
  "fetchUserDevice_settled outcome s =
     (case bind outcome devices_of of
        Inr d \<Rightarrow> s\<lparr>userDevices := d\<rparr>
      | Inl e \<Rightarrow> s\<lparr>console := console s @ [(''Failed to fetch user devices:'', e)]\<rparr>)"

text \<open>
  What happens to \<^verbatim>\<open>Body\<close> after it is mounted (the effect's first run, with
  \<^verbatim>\<open>activeUser\<close> still \<^verbatim>\<open>null\<close>, returns at once). \<^verbatim>\<open>setActiveUser v\<close> (the button of
  a member's row calls it with the member's email, a primitive value) changes nothing
  when \<open>v\<close> is the current value; otherwise the component renders again and the effect,
  which depends on \<^verbatim>\<open>activeUser\<close>, runs \<^verbatim>\<open>fetchUserDevice\<close>. A request in flight
  settles at some later moment, and the rest of the call that issued it runs then,
  whatever \<^verbatim>\<open>activeUser\<close> is by then.
\<close>

datatype event =
    SetActiveUser jsval
  | Settle nat "error + jsval"

fun step :: "client \<Rightarrow> state \<Rightarrow> event \<Rightarrow> state" where
  "step c s (SetActiveUser v) =
     (if v = activeUser s then s else fetchUserDevice_issue c (s\<lparr>activeUser := v\<rparr>))"
| "step c s (Settle i outcome) =
     (if i \<in> set (pending s)
      then fetchUserDevice_settled outcome (s\<lparr>pending := removeAll i (pending s)\<rparr>)
      else s)"

definition run :: "client \<Rightarrow> state \<Rightarrow> event list \<Rightarrow> state" where
  "run c s evs = foldl (step c) s evs"


section \<open>Presentation\<close>

text \<open>
  \<^verbatim>\<open>UserProfile\<close> (lines 152-183): the cells of a member's row. A cell holds the value
  that is rendered as the child of its element.
\<close>

record passwordHealth =
  score :: jsval
  weakPasswords :: jsval
  compromisedPasswords :: jsval

record user =
  email :: jsval
  status :: jsval
  authentication_type :: jsval
  user_role :: role
  passwordHealth :: passwordHealth

record user_row =
  email_cell :: jsval
  status_cell :: jsval
  status_class :: string
  score_cell :: jsval
  weak_cell :: jsval
  compromised_cell :: jsval
  auth_cell :: jsval
  role_cell :: jsval
  devices_button :: bool

definition UserProfile :: "user \<Rightarrow> user_row" where
  "UserProfile u =
     (let auth_type = (if authentication_type u = JStr ''email_token''
                       then JStr ''Email token'' else JStr ''-'');
          status_label = (if status u = JStr ''accepted''
                          then JStr ''Dashlane user'' else status u);
          role_label = getUserRole (user_role u)
      in \<lparr>email_cell = email u,
          status_cell = status_label,
          status_class = (if status u = JStr ''accepted''
                          then ''type type--invited'' else ''type type--not_invited''),
          score_cell = js_or (score (passwordHealth u)) (JStr ''-''),
          weak_cell = js_or (weakPasswords (passwordHealth u)) (JStr ''-''),
          compromised_cell = js_or (compromisedPasswords (passwordHealth u)) (JStr ''-''),
          auth_cell = auth_type,
          role_cell = JStr role_label,
          devices_button = (status u = JStr ''accepted'')\<rparr>)"

text \<open>
  \<^verbatim>\<open>ScoreDetails\<close> (lines 252-292) hands the series to the chart as it is
  (\<^verbatim>\<open>data={healthscore}\<close>).
\<close>

definition LineChart_data :: "jsval list \<Rightarrow> jsval list" where
  "LineChart_data healthscore_series = healthscore_series"

text \<open>
  \<^verbatim>\<open>CustomizedAxisTick\<close> (lines 235-250): the text of a tick and its anchor, from what
  the component receives. The horizontal axis (\<^verbatim>\<open>dataKey="name"\<close>) decides which ticks
  are drawn and hands each of them its \<^verbatim>\<open>index\<close> and a \<^verbatim>\<open>payload\<close> whose \<^verbatim>\<open>value\<close> it takes
  from the name of a point; the tick of a point whose name is a string carries that
  string. The component does not use \<^verbatim>\<open>index\<close>, and the position \<^verbatim>\<open>x\<close>, \<^verbatim>\<open>y\<close> only
  places the text.
\<close>

record tick =
  label :: jsval
  textAnchor :: string

definition CustomizedAxisTick :: "nat \<Rightarrow> jsval \<Rightarrow> tick" where
  "CustomizedAxisTick index payload_value =
     (let l = js_or payload_value (JStr ''Now'')
      in \<lparr>label = l, textAnchor = (if l = JStr ''Now'' then ''end'' else ''start'')\<rparr>)"



section \<open>Properties of the utility functions\<close>

lemma double_0_8_nearest: "8 / 10 < double_0_8 \<and> double_0_8 - 8 / 10 < 1 / 2 ^ 54"
  by (simp add: double_0_8_def)

lemma double_0_6_nearest: "double_0_6 < 6 / 10 \<and> 6 / 10 - double_0_6 < 1 / 2 ^ 54"
  by (simp add: double_0_6_def)

lemma double_0_59999_nearest:
  "59999 / 100000 < double_0_59999 \<and> double_0_59999 - 59999 / 100000 < 1 / 2 ^ 54"
  by (simp add: double_0_59999_def)

text \<open>
  C7. For every score \<open>s\<close> between 0 and 1 the colour is green when \<open>s >= 0.8\<close>, orange
  when \<open>0.6 <= s < 0.8\<close> and red when \<open>s < 0.6\<close>, the comparisons being those of the
  language (with the doubles the literals denote); at the four boundary inputs 0.8, 0.6,
  0.59999 and 1.0 the colours are green, orange, red and green.
\<close>

theorem getScoreColor_bands:
  assumes "0 \<le> s" and "s \<le> 1"
  shows "(s \<ge> double_0_8 \<longrightarrow> getScoreColor s = ''green'')
       \<and> (double_0_6 \<le> s \<and> s < double_0_8 \<longrightarrow> getScoreColor s = ''orange'')
       \<and> (s < double_0_6 \<longrightarrow> getScoreColor s = ''red'')
       \<and> getScoreColor double_0_8 = ''green''
       \<and> getScoreColor double_0_6 = ''orange''
       \<and> getScoreColor double_0_59999 = ''red''
       \<and> getScoreColor 1 = ''green''"
  by (simp add: getScoreColor_def double_0_8_def double_0_6_def double_0_59999_def)

theorem getScoreColor_bands_witness:
  "getScoreColor (9 / 10) = ''green'' \<and> getScoreColor (7 / 10) = ''orange''
   \<and> getScoreColor (3 / 10) = ''red'' \<and> getScoreColor double_0_8 = ''green''
   \<and> getScoreColor double_0_6 = ''orange''"
  using getScoreColor_bands [of "9 / 10"] getScoreColor_bands [of "7 / 10"]
    getScoreColor_bands [of "3 / 10"]
  by (simp add: double_0_8_def double_0_6_def)

text \<open>
  C8. The role label is a total function of the three boolean flags: each of the eight
  combinations yields exactly one of four distinct labels, the first set flag in the
  order teamAdmin, groupManager, billingAdmin deciding, and ``User'' when none is set.
\<close>

theorem getUserRole_precedence:
  "getUserRole \<lparr>teamAdmin = JBool a, groupManager = JBool g, billingAdmin = JBool b\<rparr> =
     (if a then ''Admin'' else if g then ''Group Manager''
      else if b then ''Billing Admin'' else ''User'')
   \<and> getUserRole \<lparr>teamAdmin = JBool True, groupManager = JBool g, billingAdmin = JBool b\<rparr>
       = ''Admin''
   \<and> getUserRole \<lparr>teamAdmin = JBool False, groupManager = JBool True, billingAdmin = JBool b\<rparr>
       = ''Group Manager''
   \<and> getUserRole \<lparr>teamAdmin = JBool False, groupManager = JBool False, billingAdmin = JBool True\<rparr>
       = ''Billing Admin''
   \<and> getUserRole \<lparr>teamAdmin = JBool False, groupManager = JBool False, billingAdmin = JBool False\<rparr>
       = ''User''
   \<and> distinct [''Admin'', ''Group Manager'', ''Billing Admin'', ''User'']"
  by (simp add: getUserRole_def)


section \<open>Properties of the API client\<close>

lemma post_api:
  "post (api tok) path p =
     \<lparr>url = ''/dashlane-api/public/teams'' @ path,
      request_headers = [(''Authorization'', template_Bearer tok)], payload = p\<rparr>"
  by (simp add: post_def api_def API_BASE_URL_def)

lemma payload_of_envelope: "payload_of (JObj [(''data'', JObj [(''data'', p)])]) = Inr p"
  by (simp add: payload_of_def bind_def)

lemma devices_of_envelope:
  "devices_of (JObj [(''data'', JObj [(''data'', JObj [(''devices'', d)])])]) = Inr d"
  by (simp add: devices_of_def payload_of_envelope bind_def)

lemma fetchUserDevice_settled_fulfilled:
  "devices_of r = Inr d \<Longrightarrow> fetchUserDevice_settled (Inr r) s = s\<lparr>userDevices := d\<rparr>"
  by (simp add: fetchUserDevice_settled_def bind_def)

lemma fetchUserDevice_settled_rejected:
  "fetchUserDevice_settled (Inl e) s =
     s\<lparr>console := console s @ [(''Failed to fetch user devices:'', e)]\<rparr>"
  by (simp add: fetchUserDevice_settled_def bind_def)

lemma fetchUserDevice_issue_truthy:
  "truthy (activeUser s) \<Longrightarrow>
     fetchUserDevice_issue c s =
       s\<lparr>sent := sent s @ [post c ''/MembersDeviceInformation''
                              (JObj [(''emails'', JArr [activeUser s])])],
         pending := pending s @ [length (sent s)]\<rparr>"
  by (simp add: fetchUserDevice_issue_def)

lemma fetchUserDevice_issue_falsy:
  "\<not> truthy (activeUser s) \<Longrightarrow> fetchUserDevice_issue c s = s"
  by (simp add: fetchUserDevice_issue_def)

text \<open>
  The client only decides what the requests carry: everything else in the state
  evolves alike under any two clients.
\<close>

lemma step_client_independent:
  assumes "userDevices s' = userDevices s" and "activeUser s' = activeUser s"
    and "pending s' = pending s" and "console s' = console s"
    and "length (sent s') = length (sent s)"
  shows "userDevices (step c' s' ev) = userDevices (step c s ev)
       \<and> activeUser (step c' s' ev) = activeUser (step c s ev)
       \<and> pending (step c' s' ev) = pending (step c s ev)
       \<and> console (step c' s' ev) = console (step c s ev)
       \<and> length (sent (step c' s' ev)) = length (sent (step c s ev))"
proof (cases ev)
  case (SetActiveUser v)
  then show ?thesis using assms by (simp add: fetchUserDevice_issue_def)
next
  case (Settle i outcome)
  then show ?thesis using assms
    by (simp add: fetchUserDevice_settled_def split: sum.splits)
qed

lemma foldl_client_independent:
  assumes "userDevices s' = userDevices s" and "activeUser s' = activeUser s"
    and "pending s' = pending s" and "console s' = console s"
    and "length (sent s') = length (sent s)"
  shows "userDevices (foldl (step c') s' evs) = userDevices (foldl (step c) s evs)
       \<and> activeUser (foldl (step c') s' evs) = activeUser (foldl (step c) s evs)
       \<and> pending (foldl (step c') s' evs) = pending (foldl (step c) s evs)
       \<and> console (foldl (step c') s' evs) = console (foldl (step c) s evs)
       \<and> length (sent (foldl (step c') s' evs)) = length (sent (foldl (step c) s evs))"
  using assms
proof (induction evs arbitrary: s s')
  case Nil
  then show ?case by simp
next
  case (Cons ev evs)
  have "userDevices (step c' s' ev) = userDevices (step c s ev)
       \<and> activeUser (step c' s' ev) = activeUser (step c s ev)
       \<and> pending (step c' s' ev) = pending (step c s ev)
       \<and> console (step c' s' ev) = console (step c s ev)
       \<and> length (sent (step c' s' ev)) = length (sent (step c s ev))"
    by (rule step_client_independent) (use Cons.prems in simp_all)
  then show ?case using Cons.IH [of "step c' s' ev" "step c s ev"] by simp
qed

text \<open>
  C5 (as stated, refuted). With the credential absent a call does not fail before its
  request is issued: the device request for a member goes out, with the header
  \<^verbatim>\<open>Authorization: Bearer undefined\<close>, and when the server answers it the call succeeds,
  the devices are stored and nothing is logged.
\<close>

theorem absent_credential_counterexample:
  "sent (run (api None) init [SetActiveUser (JStr ''a@x.com'')]) =
     [\<lparr>url = ''/dashlane-api/public/teams/MembersDeviceInformation'',
       request_headers = [(''Authorization'', ''Bearer undefined'')],
       payload = JObj [(''emails'', JArr [JStr ''a@x.com''])]\<rparr>]
   \<and> userDevices (run (api None) init
        [SetActiveUser (JStr ''a@x.com''),
         Settle 0 (Inr (JObj [(''data'', JObj [(''data'',
            JObj [(''devices'', JArr [JObj [(''name'', JStr ''laptop of a'')]])])])]))])
      = JArr [JObj [(''name'', JStr ''laptop of a'')]]
   \<and> console (run (api None) init
        [SetActiveUser (JStr ''a@x.com''),
         Settle 0 (Inr (JObj [(''data'', JObj [(''data'',
            JObj [(''devices'', JArr [JObj [(''name'', JStr ''laptop of a'')]])])])]))])
      = []"
  by (simp add: run_def init_def fetchUserDevice_issue_truthy devices_of_envelope
      fetchUserDevice_settled_fulfilled post_api template_Bearer_def)

text \<open>
  C5 (amended). With the credential absent the client is created all the same and no
  call fails for that reason: every call issues its request, carrying the header
  \<^verbatim>\<open>Authorization: Bearer undefined\<close> (the initial load issues its three requests, a
  selected member's device lookup its one), and what the calls store and log is what
  they store and log with any credential, so a call fails only as its request does.
\<close>

theorem absent_credential_requests:
  "post (api None) path p =
     \<lparr>url = ''/dashlane-api/public/teams'' @ path,
      request_headers = [(''Authorization'', ''Bearer undefined'')], payload = p\<rparr>
   \<and> sent (fetchDashlaneInfo_issue (api None) s) =
       sent s @ [post (api None) ''/Status'' JUndefined,
                 post (api None) ''/PasswordHealth'' JUndefined,
                 post (api None) ''/Members''
                   (JObj [(''page'', JNum 0), (''order'', JStr ''ASC''),
                          (''orderBy'', JStr ''email''), (''limit'', JNum 100)])]
   \<and> sent (fetchUserDevice_issue (api None) (s\<lparr>activeUser := JStr (ch # em)\<rparr>)) =
       sent s @ [post (api None) ''/MembersDeviceInformation''
                   (JObj [(''emails'', JArr [JStr (ch # em)])])]
   \<and> dashlaneInfo (fetchDashlaneInfo (api None) x y z s)
       = dashlaneInfo (fetchDashlaneInfo (api tok) x y z s)
   \<and> hasError (fetchDashlaneInfo (api None) x y z s)
       = hasError (fetchDashlaneInfo (api tok) x y z s)
   \<and> console (fetchDashlaneInfo (api None) x y z s)
       = console (fetchDashlaneInfo (api tok) x y z s)
   \<and> userDevices (run (api None) s evs) = userDevices (run (api tok) s evs)
   \<and> console (run (api None) s evs) = console (run (api tok) s evs)
   \<and> length (sent (run (api None) s evs)) = length (sent (run (api tok) s evs))"
proof -
  have load: "dashlaneInfo (fetchDashlaneInfo (api None) x y z s)
       = dashlaneInfo (fetchDashlaneInfo (api tok) x y z s)
   \<and> hasError (fetchDashlaneInfo (api None) x y z s)
       = hasError (fetchDashlaneInfo (api tok) x y z s)
   \<and> console (fetchDashlaneInfo (api None) x y z s)
       = console (fetchDashlaneInfo (api tok) x y z s)"
    by (simp add: fetchDashlaneInfo_def fetchDashlaneInfo_settled_def
        fetchDashlaneInfo_issue_def split: sum.splits)
  have lookup: "userDevices (run (api None) s evs) = userDevices (run (api tok) s evs)
   \<and> console (run (api None) s evs) = console (run (api tok) s evs)
   \<and> length (sent (run (api None) s evs)) = length (sent (run (api tok) s evs))"
    using foldl_client_independent [of s s "api None" evs "api tok"]
    by (simp add: run_def)
  have issue: "sent (fetchUserDevice_issue (api None) (s\<lparr>activeUser := JStr (ch # em)\<rparr>)) =
       sent s @ [post (api None) ''/MembersDeviceInformation''
                   (JObj [(''emails'', JArr [JStr (ch # em)])])]"
    by (simp add: fetchUserDevice_issue_def)
  have hdr: "post (api None) path p =
     \<lparr>url = ''/dashlane-api/public/teams'' @ path,
      request_headers = [(''Authorization'', ''Bearer undefined'')], payload = p\<rparr>"
    by (simp add: post_api template_Bearer_def)
  have three: "sent (fetchDashlaneInfo_issue (api None) s) =
       sent s @ [post (api None) ''/Status'' JUndefined,
                 post (api None) ''/PasswordHealth'' JUndefined,
                 post (api None) ''/Members''
                   (JObj [(''page'', JNum 0), (''order'', JStr ''ASC''),
                          (''orderBy'', JStr ''email''), (''limit'', JNum 100)])]"
    by (simp add: fetchDashlaneInfo_issue_def)
  from hdr three issue load lookup show ?thesis by blast
qed


section \<open>Properties of the initial load\<close>

lemma Promise_all_rejected:
  "rejections ps \<noteq> [] \<Longrightarrow> \<exists>e. Promise_all ps = Inl e"
  by (cases "rejections ps") (simp_all add: Promise_all_def)

lemma rejections_nonempty:
  "isl (snd a) \<or> isl (snd b) \<or> isl (snd c) \<Longrightarrow> rejections [a, b, c] \<noteq> []"
  by (cases a; cases b; cases c; cases "snd a"; cases "snd b"; cases "snd c") auto

lemma Promise_all_fulfilled:
  "Promise_all [(t1, Inr a), (t2, Inr b), (t3, Inr c)] = Inr [a, b, c]"
  by (simp add: Promise_all_def)

lemma fetchDashlaneInfo_settled_rejected:
  assumes "Promise_all [a, b, c] = Inl e"
  shows "fetchDashlaneInfo_settled a b c s =
           s\<lparr>hasError := True,
             console := console s @ [(''Failed to fetch Dashlane info:'', e)]\<rparr>"
  using assms by (simp add: fetchDashlaneInfo_settled_def bind_def)

lemma assemble_fulfilled:
  assumes "payload_of team_r = Inr t" and "payload_of health_r = Inr p"
    and "get p ''history'' = Inr (JArr h)" and "get p ''current'' = Inr cur"
    and "payload_of users_r = Inr u"
  shows "assemble team_r health_r users_r =
           Inr \<lparr>team = t, healthscore = h @ [cur], users = u\<rparr>"
  using assms by (simp add: assemble_def bind_def)

text \<open>
  C2. Whatever the outcomes of the three initial requests, if one of them is rejected
  the load ends in the error state: the error flag is set and \<^verbatim>\<open>dashlaneInfo\<close> is left
  as it was, which is empty (no team, no series, no members) for the load that runs
  when the application is mounted.
\<close>

theorem initial_load_all_or_nothing:
  assumes "isl (snd status_p) \<or> isl (snd health_p) \<or> isl (snd members_p)"
  shows "hasError (fetchDashlaneInfo c status_p health_p members_p s)
       \<and> dashlaneInfo (fetchDashlaneInfo c status_p health_p members_p s) = dashlaneInfo s
       \<and> dashlaneInfo (fetchDashlaneInfo c status_p health_p members_p init) = None"
proof -
  from assms obtain e where e: "Promise_all [status_p, health_p, members_p] = Inl e"
    using Promise_all_rejected rejections_nonempty by blast
  show ?thesis
    by (simp add: fetchDashlaneInfo_def fetchDashlaneInfo_settled_rejected [OF e]
        fetchDashlaneInfo_issue_def init_def)
qed

theorem initial_load_all_or_nothing_witness:
  "hasError (fetchDashlaneInfo (api (Some ''key'')) (5, Inl (Rejected ''status 500''))
      (3, Inr (JObj [(''data'', JObj [(''data'',
            JObj [(''history'', JArr []), (''current'', JObj [(''score'', JNum 80)])])])]))
      (4, Inr (JObj [(''data'', JObj [(''data'', JObj [(''members'', JArr [])])])])) init)
   \<and> dashlaneInfo (fetchDashlaneInfo (api (Some ''key'')) (5, Inl (Rejected ''status 500''))
      (3, Inr (JObj [(''data'', JObj [(''data'',
            JObj [(''history'', JArr []), (''current'', JObj [(''score'', JNum 80)])])])]))
      (4, Inr (JObj [(''data'', JObj [(''data'', JObj [(''members'', JArr [])])])])) init)
     = None"
  using initial_load_all_or_nothing [of "(5, Inl (Rejected ''status 500''))"
      "(3, Inr (JObj [(''data'', JObj [(''data'',
            JObj [(''history'', JArr []), (''current'', JObj [(''score'', JNum 80)])])])]))"
      "(4, Inr (JObj [(''data'', JObj [(''data'', JObj [(''members'', JArr [])])])]))"
      "api (Some ''key'')" init]
  by (simp add: init_def)

text \<open>
  C3. When the three initial requests are fulfilled, with team payload \<open>t\<close>, a health
  payload whose history is the list \<open>h\<close> and whose current point is \<open>cur\<close>, and members
  payload \<open>u\<close>, the stored series is \<open>h\<close> followed by \<open>cur\<close> (its length is that of \<open>h\<close>
  plus one and its last element is \<open>cur\<close>), and \<open>t\<close> and \<open>u\<close> are stored as they are.
\<close>

theorem initial_load_assembles:
  assumes "payload_of team_r = Inr t" and "payload_of health_r = Inr p"
    and "get p ''history'' = Inr (JArr h)" and "get p ''current'' = Inr cur"
    and "payload_of users_r = Inr u"
    and "s' = fetchDashlaneInfo c (t1, Inr team_r) (t2, Inr health_r) (t3, Inr users_r) s"
  shows "dashlaneInfo s' = Some \<lparr>team = t, healthscore = h @ [cur], users = u\<rparr>
       \<and> \<not> hasError s'
       \<and> length (healthscore (the (dashlaneInfo s'))) = length h + 1
       \<and> last (healthscore (the (dashlaneInfo s'))) = cur
       \<and> team (the (dashlaneInfo s')) = t
       \<and> users (the (dashlaneInfo s')) = u"
  using assms(6)
  by (simp add: fetchDashlaneInfo_def fetchDashlaneInfo_settled_def Promise_all_fulfilled
      element_def bind_def assemble_fulfilled [OF assms(1-5)] fetchDashlaneInfo_issue_def)

theorem initial_load_assembles_witness:
  "dashlaneInfo (fetchDashlaneInfo (api (Some ''key''))
      (2, Inr (JObj [(''data'', JObj [(''data'', JObj [(''seats'', JObj [(''active'', JNum 7)])])])]))
      (1, Inr (JObj [(''data'', JObj [(''data'',
            JObj [(''history'', JArr [JObj [(''name'', JStr ''May''), (''score'', JNum 71)]]),
                  (''current'', JObj [(''score'', JNum 80)])])])]))
      (3, Inr (JObj [(''data'', JObj [(''data'', JObj [(''members'', JArr [])])])])) init)
   = Some \<lparr>team = JObj [(''seats'', JObj [(''active'', JNum 7)])],
           healthscore = [JObj [(''name'', JStr ''May''), (''score'', JNum 71)],
                          JObj [(''score'', JNum 80)]],
           users = JObj [(''members'', JArr [])]\<rparr>"
  using initial_load_assembles [of
      "JObj [(''data'', JObj [(''data'', JObj [(''seats'', JObj [(''active'', JNum 7)])])])]"
      "JObj [(''seats'', JObj [(''active'', JNum 7)])]"
      "JObj [(''data'', JObj [(''data'',
            JObj [(''history'', JArr [JObj [(''name'', JStr ''May''), (''score'', JNum 71)]]),
                  (''current'', JObj [(''score'', JNum 80)])])])]"
      "JObj [(''history'', JArr [JObj [(''name'', JStr ''May''), (''score'', JNum 71)]]),
             (''current'', JObj [(''score'', JNum 80)])]"
      "[JObj [(''name'', JStr ''May''), (''score'', JNum 71)]]"
      "JObj [(''score'', JNum 80)]"
      "JObj [(''data'', JObj [(''data'', JObj [(''members'', JArr [])])])]"
      "JObj [(''members'', JArr [])]" _ "api (Some ''key'')" 2 1 3 init]
  by (simp add: payload_of_envelope)


section \<open>Properties of the device lookup\<close>

text \<open>
  C1 (as stated, refuted). A fetch for a@x.com is issued, then one for b@x.com; the
  response for b@x.com arrives first and the one for a@x.com last. The device list at
  the end is that of a@x.com, not that of b@x.com.
\<close>

theorem stale_response_counterexample:
  "userDevices (run (api (Some ''key'')) init
      [SetActiveUser (JStr ''a@x.com''), SetActiveUser (JStr ''b@x.com''),
       Settle 1 (Inr (JObj [(''data'', JObj [(''data'',
          JObj [(''devices'', JArr [JObj [(''name'', JStr ''phone of b'')]])])])])),
       Settle 0 (Inr (JObj [(''data'', JObj [(''data'',
          JObj [(''devices'', JArr [JObj [(''name'', JStr ''laptop of a'')]])])])]))])
     = JArr [JObj [(''name'', JStr ''laptop of a'')]]
   \<and> activeUser (run (api (Some ''key'')) init
      [SetActiveUser (JStr ''a@x.com''), SetActiveUser (JStr ''b@x.com''),
       Settle 1 (Inr (JObj [(''data'', JObj [(''data'',
          JObj [(''devices'', JArr [JObj [(''name'', JStr ''phone of b'')]])])])])),
       Settle 0 (Inr (JObj [(''data'', JObj [(''data'',
          JObj [(''devices'', JArr [JObj [(''name'', JStr ''laptop of a'')]])])])]))])
     = JStr ''b@x.com''"
  by (simp add: run_def init_def fetchUserDevice_issue_truthy devices_of_envelope
      fetchUserDevice_settled_fulfilled)

text \<open>
  C1 (amended). The response that arrives last decides the device list, whichever
  request was issued last: when a fetch for \<open>a\<close> is issued, then a fetch for \<open>b\<close> before
  the first resolves, and the response for \<open>a\<close> arrives after the one for \<open>b\<close>, or while
  the one for \<open>b\<close> is still pending, the device list is that of \<open>a\<close>; it is that of \<open>b\<close>
  when the responses arrive in the order of the requests.
\<close>

theorem last_settled_response_wins:
  assumes "truthy a" and "truthy b" and "a \<noteq> b" and "a \<noteq> activeUser s"
    and "devices_of ra = Inr da" and "devices_of rb = Inr db"
  shows "userDevices (run c s [SetActiveUser a, SetActiveUser b,
            Settle (Suc (length (sent s))) (Inr rb), Settle (length (sent s)) (Inr ra)]) = da
       \<and> userDevices (run c s [SetActiveUser a, SetActiveUser b,
            Settle (length (sent s)) (Inr ra)]) = da
       \<and> userDevices (run c s [SetActiveUser a, SetActiveUser b,
            Settle (length (sent s)) (Inr ra), Settle (Suc (length (sent s))) (Inr rb)]) = db"
  using assms
  by (simp add: run_def fetchUserDevice_issue_truthy fetchUserDevice_settled_fulfilled)

theorem last_settled_response_wins_witness:
  "userDevices (run (api (Some ''key'')) init
      [SetActiveUser (JStr ''a@x.com''), SetActiveUser (JStr ''b@x.com''),
       Settle 0 (Inr (JObj [(''data'', JObj [(''data'', JObj [(''devices'', JArr [JStr ''A''])])])]))])
     = JArr [JStr ''A'']
   \<and> userDevices (run (api (Some ''key'')) init
      [SetActiveUser (JStr ''a@x.com''), SetActiveUser (JStr ''b@x.com''),
       Settle 0 (Inr (JObj [(''data'', JObj [(''data'', JObj [(''devices'', JArr [JStr ''A''])])])])),
       Settle 1 (Inr (JObj [(''data'', JObj [(''data'', JObj [(''devices'', JArr [JStr ''B''])])])]))])
     = JArr [JStr ''B'']"
  using last_settled_response_wins [of "JStr ''a@x.com''" "JStr ''b@x.com''" init
      "JObj [(''data'', JObj [(''data'', JObj [(''devices'', JArr [JStr ''A''])])])]"
      "JArr [JStr ''A'']"
      "JObj [(''data'', JObj [(''data'', JObj [(''devices'', JArr [JStr ''B''])])])]"
      "JArr [JStr ''B'']" "api (Some ''key'')"]
  by (simp add: init_def devices_of_envelope)

text \<open>
  C4 (as stated, refuted). The devices of a@x.com have been loaded; the selection is
  then set to \<^verbatim>\<open>null\<close>. The device list is not cleared: it still holds the devices of
  a@x.com.
\<close>

theorem empty_selection_counterexample:
  "userDevices (run (api (Some ''key'')) init
      [SetActiveUser (JStr ''a@x.com''),
       Settle 0 (Inr (JObj [(''data'', JObj [(''data'',
          JObj [(''devices'', JArr [JObj [(''name'', JStr ''laptop of a'')]])])])])),
       SetActiveUser JNull])
     = JArr [JObj [(''name'', JStr ''laptop of a'')]]"
  by (simp add: run_def init_def fetchUserDevice_issue_truthy fetchUserDevice_issue_falsy
      devices_of_envelope fetchUserDevice_settled_fulfilled)

text \<open>
  C4 (amended). Whenever the selection is set to an empty value (\<^verbatim>\<open>null\<close>, or any other
  falsy value), no request is issued and the device list is left as it was.
\<close>

theorem empty_selection_no_request:
  assumes "\<not> truthy v"
  shows "sent (step c s (SetActiveUser v)) = sent s
       \<and> pending (step c s (SetActiveUser v)) = pending s
       \<and> userDevices (step c s (SetActiveUser v)) = userDevices s"
  using assms by (simp add: fetchUserDevice_issue_falsy)

theorem empty_selection_no_request_witness:
  "sent (step (api (Some ''key''))
      (init\<lparr>userDevices := JArr [JStr ''A''], activeUser := JStr ''a@x.com''\<rparr>)
      (SetActiveUser JNull)) = []
   \<and> userDevices (step (api (Some ''key''))
      (init\<lparr>userDevices := JArr [JStr ''A''], activeUser := JStr ''a@x.com''\<rparr>)
      (SetActiveUser JNull)) = JArr [JStr ''A'']"
  using empty_selection_no_request [of JNull "api (Some ''key'')"
      "init\<lparr>userDevices := JArr [JStr ''A''], activeUser := JStr ''a@x.com''\<rparr>"]
  by (simp add: init_def)

text \<open>
  C6. When a device request in flight is rejected, the error is logged and nothing
  else changes: \<^verbatim>\<open>dashlaneInfo\<close> (team, series, members), the error flag and the device
  list are what they were.
\<close>

theorem device_failure_isolated:
  assumes "i \<in> set (pending s)"
  shows "console (step c s (Settle i (Inl e))) =
           console s @ [(''Failed to fetch user devices:'', e)]
       \<and> dashlaneInfo (step c s (Settle i (Inl e))) = dashlaneInfo s
       \<and> hasError (step c s (Settle i (Inl e))) = hasError s
       \<and> userDevices (step c s (Settle i (Inl e))) = userDevices s"
  using assms by (simp add: fetchUserDevice_settled_rejected)

theorem device_failure_isolated_witness:
  "console (step (api (Some ''key''))
      (run (api (Some ''key'')) init [SetActiveUser (JStr ''a@x.com'')])
      (Settle 0 (Inl (Rejected ''timeout'')))) =
     [(''Failed to fetch user devices:'', Rejected ''timeout'')]
   \<and> userDevices (step (api (Some ''key''))
      (run (api (Some ''key'')) init [SetActiveUser (JStr ''a@x.com'')])
      (Settle 0 (Inl (Rejected ''timeout'')))) = JNull
   \<and> \<not> hasError (step (api (Some ''key''))
      (run (api (Some ''key'')) init [SetActiveUser (JStr ''a@x.com'')])
      (Settle 0 (Inl (Rejected ''timeout''))))"
proof -
  have p: "0 \<in> set (pending (run (api (Some ''key'')) init [SetActiveUser (JStr ''a@x.com'')]))"
    by (simp add: run_def init_def fetchUserDevice_issue_truthy)
  have s: "console (run (api (Some ''key'')) init [SetActiveUser (JStr ''a@x.com'')]) = []
     \<and> userDevices (run (api (Some ''key'')) init [SetActiveUser (JStr ''a@x.com'')]) = JNull
     \<and> \<not> hasError (run (api (Some ''key'')) init [SetActiveUser (JStr ''a@x.com'')])"
    by (simp add: run_def init_def fetchUserDevice_issue_truthy)
  from device_failure_isolated [OF p, of "api (Some ''key'')" "Rejected ''timeout''"] s
  show ?thesis by simp
qed


section \<open>Properties of the presentation\<close>

lemma label_CustomizedAxisTick:
  "label (CustomizedAxisTick i v) = (if truthy v then v else JStr ''Now'')"
  by (simp add: CustomizedAxisTick_def Let_def js_or_def)

lemma cells_UserProfile:
  "score_cell (UserProfile u) = js_or (score (passwordHealth u)) (JStr ''-'')"
  "weak_cell (UserProfile u) = js_or (weakPasswords (passwordHealth u)) (JStr ''-'')"
  "compromised_cell (UserProfile u) =
     js_or (compromisedPasswords (passwordHealth u)) (JStr ''-'')"
  by (simp_all add: UserProfile_def Let_def)

lemma js_or_falsy: "js_or (JNum 0) b = b" "js_or JUndefined b = b"
  by (simp_all add: js_or_def)

lemma js_or_not_zero: "js_or a (JStr ''-'') \<noteq> JNum 0"
  by (auto simp add: js_or_def)

text \<open>
  C9 (as stated, refuted). A series has two points and the last one has the name
  ``June'': its tick, at index 1, carries that name and is labelled ``June'', not ``Now''.
\<close>

theorem last_tick_counterexample:
  "label (CustomizedAxisTick 1 (JStr ''June'')) = JStr ''June''"
  by (simp add: label_CustomizedAxisTick)

text \<open>
  C9 (amended). The series is handed to the chart as it is, and the tick component
  labels a tick with the value it receives when that value is truthy and with ``Now''
  when it is absent, empty or otherwise falsy; the index of the tick plays no part, so
  the tick of the last point is labelled ``Now'' when it carries no name and by its name
  when it carries one.
\<close>

theorem tick_label_by_value:
  "LineChart_data series = series
   \<and> label (CustomizedAxisTick i v) = (if truthy v then v else JStr ''Now'')
   \<and> CustomizedAxisTick i v = CustomizedAxisTick j v
   \<and> label (CustomizedAxisTick i JUndefined) = JStr ''Now''
   \<and> label (CustomizedAxisTick i (JStr [])) = JStr ''Now''
   \<and> label (CustomizedAxisTick i (JStr (ch # name))) = JStr (ch # name)"
proof -
  have same: "CustomizedAxisTick i v = CustomizedAxisTick j v"
    by (simp add: CustomizedAxisTick_def)
  have data: "LineChart_data series = series"
    by (simp add: LineChart_data_def)
  from same data show ?thesis
    by (simp add: label_CustomizedAxisTick)
qed

text \<open>
  C10. For a member whose score, weak-password count or compromised-password count is
  the number 0, the cell of that metric holds the placeholder ``-'', exactly as it does
  when the property is absent; and no member's metric cell ever holds the number 0.
\<close>

theorem zero_metric_placeholder:
  "(score (passwordHealth u) = JNum 0 \<longrightarrow>
      score_cell (UserProfile u) = JStr ''-''
      \<and> score_cell (UserProfile u) =
          score_cell (UserProfile (u\<lparr>passwordHealth := (passwordHealth u)\<lparr>score := JUndefined\<rparr>\<rparr>)))
   \<and> (weakPasswords (passwordHealth u) = JNum 0 \<longrightarrow>
      weak_cell (UserProfile u) = JStr ''-''
      \<and> weak_cell (UserProfile u) =
          weak_cell (UserProfile
            (u\<lparr>passwordHealth := (passwordHealth u)\<lparr>weakPasswords := JUndefined\<rparr>\<rparr>)))
   \<and> (compromisedPasswords (passwordHealth u) = JNum 0 \<longrightarrow>
      compromised_cell (UserProfile u) = JStr ''-''
      \<and> compromised_cell (UserProfile u) =
          compromised_cell (UserProfile
            (u\<lparr>passwordHealth := (passwordHealth u)\<lparr>compromisedPasswords := JUndefined\<rparr>\<rparr>)))
   \<and> score_cell (UserProfile u) \<noteq> JNum 0
   \<and> weak_cell (UserProfile u) \<noteq> JNum 0
   \<and> compromised_cell (UserProfile u) \<noteq> JNum 0"
  by (simp add: cells_UserProfile js_or_falsy js_or_not_zero)

theorem zero_metric_placeholder_witness:
  "score_cell (UserProfile
      \<lparr>email = JStr ''a@x.com'', status = JStr ''accepted'',
       authentication_type = JStr ''email_token'',
       user_role = \<lparr>teamAdmin = JBool False, groupManager = JBool False,
                    billingAdmin = JBool False\<rparr>,
       passwordHealth = \<lparr>score = JNum 0, weakPasswords = JNum 0,
                         compromisedPasswords = JNum 0\<rparr>\<rparr>) = JStr ''-''
   \<and> weak_cell (UserProfile
      \<lparr>email = JStr ''a@x.com'', status = JStr ''accepted'',
       authentication_type = JStr ''email_token'',
       user_role = \<lparr>teamAdmin = JBool False, groupManager = JBool False,
                    billingAdmin = JBool False\<rparr>,
       passwordHealth = \<lparr>score = JNum 0, weakPasswords = JNum 0,
                         compromisedPasswords = JNum 0\<rparr>\<rparr>) = JStr ''-''
   \<and> compromised_cell (UserProfile
      \<lparr>email = JStr ''a@x.com'', status = JStr ''accepted'',
       authentication_type = JStr ''email_token'',
       user_role = \<lparr>teamAdmin = JBool False, groupManager = JBool False,
                    billingAdmin = JBool False\<rparr>,
       passwordHealth = \<lparr>score = JNum 0, weakPasswords = JNum 0,
                         compromisedPasswords = JNum 0\<rparr>\<rparr>) = JStr ''-''"
  using zero_metric_placeholder [of
      "\<lparr>email = JStr ''a@x.com'', status = JStr ''accepted'',
       authentication_type = JStr ''email_token'',
       user_role = \<lparr>teamAdmin = JBool False, groupManager = JBool False,
                    billingAdmin = JBool False\<rparr>,
       passwordHealth = \<lparr>score = JNum 0, weakPasswords = JNum 0,
                         compromisedPasswords = JNum 0\<rparr>\<rparr>"]
  by simp

end
